theory Spec2Isabelle
  imports Complex_Main "HOL-Library.Multiset"
begin

section \<open>Data model\<close>

text \<open>
  A cell of the raw table is a JSON scalar: null (Python \<open>None\<close> or \<open>NaN\<close>, which pandas
  treats alike as missing), a string, or an integer number. Nested structures are taken
  as already flattened to dotted column names; lists and non-integral numbers are outside
  this universe.
\<close>

datatype scalar = Null | Str string | Num int

text \<open>A naive \<open>datetime64[ns]\<close> value: nanoseconds since 1970-01-01; \<open>None\<close> is \<open>NaT\<close>.\<close>

type_synonym timestamp = int

text \<open>
  A \<open>DataFrame\<close> of raw records: its column labels and its rows. A row holds its cells
  as label/value pairs; a label the row does not hold is a missing cell.
\<close>

type_synonym row = "(string \<times> scalar) list"

definition cell :: "row \<Rightarrow> string \<Rightarrow> scalar" where
  "cell r c = (case map_of r c of Some v \<Rightarrow> v | None \<Rightarrow> Null)"

record frame =
  columns :: "string list"
  rows :: "row list"

definition column :: "frame \<Rightarrow> string \<Rightarrow> scalar list" where
  "column df c = map (\<lambda>r. cell r c) (rows df)"

text \<open>\<open>df.empty\<close>: some axis has length zero.\<close>

definition empty_frame :: "frame \<Rightarrow> bool" where
  "empty_frame df = (columns df = [] \<or> rows df = [])"

definition isna :: "scalar \<Rightarrow> bool" where
  "isna v = (v = Null)"

text \<open>The canonical record built by \<open>transform\<close>, one field per output column.\<close>

record canon_row =
  price_date :: "timestamp option"
  commodity_id :: scalar
  commodity_name :: scalar
  price_type :: scalar
  price_currency :: scalar
  price_value :: "rat option"
  source_name :: scalar
  ingested_at :: "timestamp option"
  raw_id :: scalar

type_synonym business_key = "timestamp option \<times> scalar \<times> scalar \<times> scalar"

definition business_key :: "canon_row \<Rightarrow> business_key" where
  "business_key r = (price_date r, commodity_id r, price_type r, source_name r)"

text \<open>
  What \<open>transform\<close> returns: the input frame itself when it is empty, a frame with the
  nine canonical columns otherwise.
\<close>

datatype tframe = Unchanged frame | Canonical "canon_row list"

datatype failure =
    ColumnNotInDataframe string
  | NotNullable string nat
  | CoercionFailed string nat

datatype error = KeyError string | SchemaErrors "failure list"

section \<open>The library operations the pipeline calls\<close>

text \<open>
  The pandas, numpy and pandera operations used by \<open>transform\<close> and \<open>run\<close> are not part
  of the repository. They are parameters of the model, constrained only by what their
  documentation promises for the arguments the code passes:
  \<^item> \<open>astype_str\<close> is \<open>Series.astype(str)\<close>;
  \<^item> \<open>to_datetime\<close> is \<open>pd.to_datetime(_, errors="coerce")\<close>, its result read as naive
    timestamps (columns that mix UTC offsets, which pandas does not bring to one
    timestamp type, are not modelled);
  \<^item> \<open>to_numeric\<close> is \<open>pd.to_numeric(_, errors="coerce")\<close>, floats idealised as rationals;
  \<^item> \<open>argsort\<close> is numpy's \<open>argsort\<close> with the default \<open>kind="quicksort"\<close>, which
    \<open>sort_values\<close> uses when no \<open>kind\<close> is given;
  \<^item> \<open>utcnow\<close> is the value of \<open>datetime.utcnow()\<close> at the call;
  \<^item> \<open>astype_int\<close> is pandera's coercion of one cell to \<open>int\<close>.
\<close>

record pandas =
  astype_str :: "scalar list \<Rightarrow> string list"
  to_datetime :: "scalar list \<Rightarrow> timestamp option list"
  to_numeric :: "scalar list \<Rightarrow> rat option list"
  argsort :: "timestamp list \<Rightarrow> nat list"
  utcnow :: timestamp
  astype_int :: "scalar \<Rightarrow> int option"

definition null_strings :: "string list" where
  "null_strings = [''nan'', ''None'']"

text \<open>
  The contract: the column operations keep the length; a missing cell stays missing
  (\<open>astype(str)\<close> renders it as \<open>nan\<close> or \<open>None\<close>, which \<open>to_datetime\<close> coerces to
  \<open>NaT\<close>); \<open>argsort\<close> returns a permutation of the positions that puts the values in
  ascending order, and nothing is promised about the order of equal values; an integer
  cell coerces to itself and a missing one does not coerce.
\<close>

definition lib_ok :: "pandas \<Rightarrow> bool" where
  "lib_ok L =
    ((\<forall>xs. length (astype_str L xs) = length xs) \<and>
     (\<forall>xs i. i < length xs \<and> xs ! i = Null \<longrightarrow> astype_str L xs ! i \<in> set null_strings) \<and>
     (\<forall>xs. length (to_datetime L xs) = length xs) \<and>
     (\<forall>xs i. i < length xs \<and> xs ! i = Null \<longrightarrow> to_datetime L xs ! i = None) \<and>
     (\<forall>xs i s. i < length xs \<and> xs ! i = Str s \<and> s \<in> set null_strings
        \<longrightarrow> to_datetime L xs ! i = None) \<and>
     (\<forall>xs. length (to_numeric L xs) = length xs) \<and>
     (\<forall>xs i. i < length xs \<and> xs ! i = Null \<longrightarrow> to_numeric L xs ! i = None) \<and>
     (\<forall>xs. mset (argsort L xs) = mset [0..<length xs]) \<and>
     (\<forall>xs. sorted (map ((!) xs) (argsort L xs))) \<and>
     (\<forall>n. astype_int L (Num n) = Some n) \<and>
     astype_int L Null = None)"

section \<open>Loading the raw table\<close>

text \<open>
  \<open>_load_raw_dataframe\<close>: a row of \<open>raw_data.faostat_prices\<close> is its \<open>id\<close> and its decoded
  payload, a JSON object given as its key/value pairs (a later pair of the same key
  wins, as in \<open>json.loads\<close>). No rows give \<open>pd.DataFrame()\<close>. Otherwise
  \<open>json_normalize\<close> makes one column per key, in the order the keys are first met, a
  key absent from a payload giving a missing cell, and the \<open>raw_id\<close> column is set from
  the ids (a new last column unless a payload has that key).
\<close>

type_synonym raw_table = "(int \<times> (string \<times> scalar) list) list"

definition json_normalize_columns :: "(string \<times> scalar) list list \<Rightarrow> string list" where
  "json_normalize_columns payloads = rev (remdups (rev (concat (map (map fst) payloads))))"

definition load_raw_dataframe :: "raw_table \<Rightarrow> frame" where
  "load_raw_dataframe raw_df =
    (if raw_df = [] then \<lparr>columns = [], rows = []\<rparr>
     else
       (let normalized = json_normalize_columns (map snd raw_df) in
        \<lparr>columns =
           (if ''raw_id'' \<in> set normalized then normalized else normalized @ [''raw_id'']),
         rows = map (\<lambda>(i, p). (''raw_id'', Num i) # rev p) raw_df\<rparr>))"

section \<open>Field reconciliation\<close>

text \<open>
  \<open>_coalesce_columns\<close> returns either a column of the frame, or the default passed by
  the caller (a scalar, not a column), or a fresh column of \<open>None\<close>.
\<close>

datatype 'd coalesced = Series "scalar list" | Default 'd

fun coalesce_loop :: "frame \<Rightarrow> string list \<Rightarrow> scalar list option" where
  "coalesce_loop df [] = None"
| "coalesce_loop df (c # candidates) =
    (if c \<in> set (columns df) then
       (let series = column df c in
        if \<not> list_all isna series then Some series else coalesce_loop df candidates)
     else coalesce_loop df candidates)"

definition coalesce_columns :: "frame \<Rightarrow> string list \<Rightarrow> 'd option \<Rightarrow> 'd coalesced" where
  "coalesce_columns df candidates dflt =
    (case coalesce_loop df candidates of
       Some series \<Rightarrow> Series series
     | None \<Rightarrow>
        (case dflt of
           Some d \<Rightarrow> Default d
         | None \<Rightarrow> Series (replicate (length (rows df)) Null)))"

text \<open>
  The selection rule in the words of the specification: the first alias, in priority
  order, that is a column of the raw record set and holds at least one non-null value.
\<close>

definition first_qualifying_alias :: "frame \<Rightarrow> string list \<Rightarrow> string option" where
  "first_qualifying_alias df candidates =
     find (\<lambda>c. c \<in> set (columns df) \<and> (\<exists>v \<in> set (column df c). v \<noteq> Null)) candidates"

text \<open>Assigning a column or a scalar to \<open>output[...]\<close>: a scalar fills every row.\<close>

fun assign :: "nat \<Rightarrow> scalar coalesced \<Rightarrow> scalar list" where
  "assign n (Series xs) = xs"
| "assign n (Default d) = replicate n d"

section \<open>Coercion\<close>

text \<open>\<open>str.strip()\<close> on the ASCII whitespace characters.\<close>

definition is_space :: "char \<Rightarrow> bool" where
  "is_space c = (c \<in> set [CHR '' '', CHR 0x09, CHR 0x0A, CHR 0x0B, CHR 0x0C, CHR 0x0D,
                            CHR 0x1C, CHR 0x1D, CHR 0x1E, CHR 0x1F])"

definition str_strip :: "string \<Rightarrow> string" where
  "str_strip s = rev (dropWhile is_space (rev (dropWhile is_space s)))"

definition date_aliases :: "string list" where
  "date_aliases = [''price_date'', ''timeperiod'', ''time'', ''year'']"

definition commodity_id_aliases :: "string list" where
  "commodity_id_aliases = [''commodity_id'', ''item_code'', ''Item Code (CPC)'']"

definition commodity_name_aliases :: "string list" where
  "commodity_name_aliases = [''commodity_name'', ''item'', ''Item'']"

definition price_type_aliases :: "string list" where
  "price_type_aliases = [''price_type'', ''element'', ''Element'']"

definition price_currency_aliases :: "string list" where
  "price_currency_aliases = [''price_currency'', ''unit'', ''Unit'']"

definition price_value_aliases :: "string list" where
  "price_value_aliases = [''price_value'', ''Value'']"

definition source_name_aliases :: "string list" where
  "source_name_aliases = [''source_name'', ''Source'']"

definition ingested_at_aliases :: "string list" where
  "ingested_at_aliases = [''ingested_at'']"

text \<open>The columns of \<open>output\<close>, in the order \<open>transform\<close> assigns them.\<close>

definition date_column :: "pandas \<Rightarrow> frame \<Rightarrow> timestamp option list" where
  "date_column L df =
    (let date_series = assign (length (rows df)) (coalesce_columns df date_aliases None);
         date_series = map str_strip (astype_str L date_series)
     in to_datetime L (map Str date_series))"

definition price_value_column :: "pandas \<Rightarrow> frame \<Rightarrow> rat option list" where
  "price_value_column L df =
    (let price_values = assign (length (rows df)) (coalesce_columns df price_value_aliases None)
     in to_numeric L price_values)"

definition ingested_at_column :: "pandas \<Rightarrow> frame \<Rightarrow> timestamp option list" where
  "ingested_at_column L df =
    (case coalesce_columns df ingested_at_aliases (Some (utcnow L)) of
       Series ingested_series \<Rightarrow> to_datetime L ingested_series
     | Default now \<Rightarrow> replicate (length (rows df)) (Some now))"

text \<open>
  Lines 68 to 101 of \<open>transform\<close>: the frame \<open>output\<close> before any row is dropped, row
  \<open>i\<close> taking position \<open>i\<close> of every column.
\<close>

definition reconcile_coerce :: "pandas \<Rightarrow> frame \<Rightarrow> canon_row list" where
  "reconcile_coerce L df =
    (let n = length (rows df) in
     map (\<lambda>i.
        \<lparr>price_date = date_column L df ! i,
         commodity_id = assign n (coalesce_columns df commodity_id_aliases None) ! i,
         commodity_name = assign n (coalesce_columns df commodity_name_aliases None) ! i,
         price_type = assign n (coalesce_columns df price_type_aliases None) ! i,
         price_currency =
           assign n (coalesce_columns df price_currency_aliases (Some (Str ''USD''))) ! i,
         price_value = price_value_column L df ! i,
         source_name =
           assign n (coalesce_columns df source_name_aliases (Some (Str ''FAOSTAT''))) ! i,
         ingested_at = ingested_at_column L df ! i,
         raw_id = column df ''raw_id'' ! i\<rparr>)
       [0..<n])"

text \<open>\<open>dropna(subset=["price_date", "price_value"])\<close>.\<close>

definition dropna_required :: "canon_row list \<Rightarrow> canon_row list" where
  "dropna_required rs = filter (\<lambda>r. price_date r \<noteq> None \<and> price_value r \<noteq> None) rs"

section \<open>Deduplication\<close>

text \<open>
  \<open>sort_values("ingested_at", ascending=False)\<close> goes through pandas' \<open>nargsort\<close>: the
  positions of the missing values are set aside in their order; the other values and
  their positions are reversed, sorted ascending by \<open>argsort\<close>, and the result is
  reversed again; the missing positions come last.
\<close>

definition nargsort_desc :: "pandas \<Rightarrow> timestamp option list \<Rightarrow> nat list" where
  "nargsort_desc L items =
    (let idx = [0..<length items];
         non_nan_idx = filter (\<lambda>i. items ! i \<noteq> None) idx;
         nan_idx = filter (\<lambda>i. items ! i = None) idx;
         non_nans = map (\<lambda>i. the (items ! i)) non_nan_idx;
         non_nans = rev non_nans;
         non_nan_idx = rev non_nan_idx;
         indexer = map ((!) non_nan_idx) (argsort L non_nans);
         indexer = rev indexer
     in indexer @ nan_idx)"

definition sort_values_desc :: "pandas \<Rightarrow> canon_row list \<Rightarrow> canon_row list" where
  "sort_values_desc L rs = map ((!) rs) (nargsort_desc L (map ingested_at rs))"

text \<open>
  \<open>drop_duplicates(subset=..., keep="first")\<close>: scan in order and keep a row unless its
  key was met before. Missing key cells compare equal to each other.
\<close>

fun drop_duplicates_seen :: "business_key list \<Rightarrow> canon_row list \<Rightarrow> canon_row list" where
  "drop_duplicates_seen seen [] = []"
| "drop_duplicates_seen seen (r # rs) =
    (if business_key r \<in> set seen then drop_duplicates_seen seen rs
     else r # drop_duplicates_seen (business_key r # seen) rs)"

definition drop_duplicates :: "canon_row list \<Rightarrow> canon_row list" where
  "drop_duplicates rs = drop_duplicates_seen [] rs"

definition deduplicate :: "pandas \<Rightarrow> canon_row list \<Rightarrow> canon_row list" where
  "deduplicate L rs = drop_duplicates (sort_values_desc L rs)"

section \<open>The transform\<close>

text \<open>
  An empty frame is returned as it is. Otherwise the canonical columns are built, which
  raises \<open>KeyError\<close> when the frame has no \<open>raw_id\<close> column, rows without a date or a
  price are dropped, and the rest is deduplicated. The casts after \<open>dropna\<close> change no
  value of this model: the prices are numbers already and the timestamps naive.
\<close>

definition transform :: "pandas \<Rightarrow> frame \<Rightarrow> error + tframe" where
  "transform L df =
    (if empty_frame df then Inr (Unchanged df)
     else if ''raw_id'' \<notin> set (columns df) then Inl (KeyError ''raw_id'')
     else Inr (Canonical (deduplicate L (dropna_required (reconcile_coerce L df)))))"

section \<open>Schema validation, loading and the run\<close>

definition schema_columns :: "string list" where
  "schema_columns = [''price_date'', ''commodity_id'', ''commodity_name'', ''price_type'',
     ''price_currency'', ''price_value'', ''source_name'', ''ingested_at'', ''raw_id'']"

text \<open>
  \<open>CommodityPriceSchema.validate(_, lazy=True)\<close> collects every failure. Each schema
  column is required, so one that the frame lacks is a failure. In a canonical frame
  \<open>price_date\<close> and \<open>ingested_at\<close> are timestamp columns and \<open>price_value\<close> a float
  column already; the string columns coerce cell by cell and may be null; \<open>price_date\<close>,
  \<open>price_value\<close> and \<open>raw_id\<close> may not be null, and \<open>raw_id\<close> must coerce to \<open>int\<close>.
  A frame returned unchanged is empty, so it has no cell to check.
\<close>

definition row_failures :: "pandas \<Rightarrow> nat \<Rightarrow> canon_row \<Rightarrow> failure list" where
  "row_failures L i r =
    (if price_date r = None then [NotNullable ''price_date'' i] else []) @
    (if price_value r = None then [NotNullable ''price_value'' i] else []) @
    (if raw_id r = Null then [NotNullable ''raw_id'' i]
     else if astype_int L (raw_id r) = None then [CoercionFailed ''raw_id'' i] else [])"

fun validate :: "pandas \<Rightarrow> tframe \<Rightarrow> failure list" where
  "validate L (Unchanged df) =
     map ColumnNotInDataframe (filter (\<lambda>c. c \<notin> set (columns df)) schema_columns)"
| "validate L (Canonical rs) =
     concat (map (\<lambda>(i, r). row_failures L i r) (zip [0..<length rs] rs))"

text \<open>
  \<open>load\<close>: nothing is written for an empty frame; otherwise the table is replaced by the
  rows of the frame, \<open>price_date\<close> cut to its calendar day. The result is the row count
  and the rows written, if any.
\<close>

definition to_date :: "timestamp \<Rightarrow> timestamp" where
  "to_date t = (t div 86400000000000) * 86400000000000"

fun load :: "tframe \<Rightarrow> error + nat \<times> canon_row list option" where
  "load (Unchanged df) =
     (if empty_frame df then Inr (0, None) else Inl (KeyError ''price_date''))"
| "load (Canonical rs) =
     (if rs = [] then Inr (0, None)
      else Inr (length rs, Some (map (\<lambda>r. r\<lparr>price_date := map_option to_date (price_date r)\<rparr>) rs)))"

text \<open>
  \<open>run\<close>: the variable \<open>transformed\<close> is the result of \<open>transform\<close> on the loaded
  table; it is what \<open>validate\<close> checks and, when no failure is collected, what \<open>load\<close>
  writes.
\<close>

definition transformed :: "pandas \<Rightarrow> raw_table \<Rightarrow> error + tframe" where
  "transformed L raw = (let raw_df = load_raw_dataframe raw in transform L raw_df)"

definition run :: "pandas \<Rightarrow> raw_table \<Rightarrow> error + nat \<times> canon_row list option" where
  "run L raw =
    (case transformed L raw of
       Inl e \<Rightarrow> Inl e
     | Inr t \<Rightarrow>
        (case validate L t of
           [] \<Rightarrow> load t
         | f # fs \<Rightarrow> Inl (SchemaErrors (f # fs))))"

text \<open>
  Recency of two \<open>ingested_at\<close> values as the descending sort ranks them: a missing
  timestamp ranks below every timestamp.
\<close>

definition not_older :: "timestamp option \<Rightarrow> timestamp option \<Rightarrow> bool" where
  "not_older a b =
    (case b of None \<Rightarrow> True | Some t \<Rightarrow> (case a of None \<Rightarrow> False | Some s \<Rightarrow> t \<le> s))"

section \<open>A reference instance of the library\<close>

text \<open>
  One library that meets the contract, used to run the pipeline on concrete tables. It
  works cell by cell. Dates are read by pandas' ISO 8601 path for the forms \<open>YYYY\<close>
  (the first of January of that year) and \<open>YYYY-MM-DD\<close>, within the range of
  \<open>datetime64[ns]\<close>; an integer is a count of nanoseconds; prices are plain decimal
  numerals; every other string is coerced to null. Its \<open>argsort\<close> is stable. A second
  instance differs only in its \<open>argsort\<close>, which puts equal values in the reverse of
  their input order.
\<close>

definition digit_of :: "char \<Rightarrow> nat option" where
  "digit_of = map_of [(CHR ''0'', 0), (CHR ''1'', 1), (CHR ''2'', 2), (CHR ''3'', 3),
     (CHR ''4'', 4), (CHR ''5'', 5), (CHR ''6'', 6), (CHR ''7'', 7), (CHR ''8'', 8),
     (CHR ''9'', 9)]"

definition digits_value :: "string \<Rightarrow> nat option" where
  "digits_value s =
    (if s = [] \<or> \<not> list_all (\<lambda>c. digit_of c \<noteq> None) s then None
     else Some (foldl (\<lambda>a c. 10 * a + the (digit_of c)) 0 s))"

definition is_leap :: "nat \<Rightarrow> bool" where
  "is_leap y = (y mod 4 = 0 \<and> (y mod 100 \<noteq> 0 \<or> y mod 400 = 0))"

definition days_in_month :: "nat \<Rightarrow> nat \<Rightarrow> nat" where
  "days_in_month y m =
    (if m = 2 then (if is_leap y then 29 else 28)
     else if m \<in> {4, 6, 9, 11} then 30 else 31)"

definition days_from_civil :: "int \<Rightarrow> int \<Rightarrow> int \<Rightarrow> int" where
  "days_from_civil y m d =
    (let y' = (if m \<le> 2 then y - 1 else y);
         era = y' div 400;
         yoe = y' - era * 400;
         mp = (m + 9) mod 12;
         doy = (153 * mp + 2) div 5 + d - 1;
         doe = yoe * 365 + yoe div 4 - yoe div 100 + doy
     in era * 146097 + doe - 719468)"

definition midnight :: "nat \<Rightarrow> nat \<Rightarrow> nat \<Rightarrow> timestamp" where
  "midnight y m d = days_from_civil (int y) (int m) (int d) * 86400000000000"

definition in_bounds :: "int \<Rightarrow> timestamp option" where
  "in_bounds ns = (if - (2 ^ 63) < ns \<and> ns < 2 ^ 63 then Some ns else None)"

definition parse_iso8601 :: "string \<Rightarrow> timestamp option" where
  "parse_iso8601 s =
    (if length s = 4 then
       (case digits_value s of
          Some y \<Rightarrow> in_bounds (midnight y 1 1)
        | None \<Rightarrow> None)
     else if length s = 10 \<and> s ! 4 = CHR ''-'' \<and> s ! 7 = CHR ''-'' then
       (case (digits_value (take 4 s), digits_value (take 2 (drop 5 s)), digits_value (drop 8 s)) of
          (Some y, Some m, Some d) \<Rightarrow>
            (if 1 \<le> m \<and> m \<le> 12 \<and> 1 \<le> d \<and> d \<le> days_in_month y m
             then in_bounds (midnight y m d) else None)
        | _ \<Rightarrow> None)
     else None)"

fun to_datetime_elem :: "scalar \<Rightarrow> timestamp option" where
  "to_datetime_elem Null = None"
| "to_datetime_elem (Num n) = in_bounds n"
| "to_datetime_elem (Str s) = parse_iso8601 s"

definition unsigned_decimal :: "string \<Rightarrow> rat option" where
  "unsigned_decimal s =
    (let ip = takeWhile (\<lambda>c. c \<noteq> CHR ''.'') s; rest = dropWhile (\<lambda>c. c \<noteq> CHR ''.'') s in
     case digits_value ip of
       None \<Rightarrow> None
     | Some a \<Rightarrow>
        (if rest = [] then Some (of_nat a)
         else (case digits_value (tl rest) of
                 None \<Rightarrow> None
               | Some b \<Rightarrow> Some (of_nat a + of_nat b / 10 ^ length (tl rest)))))"

fun parse_decimal :: "string \<Rightarrow> rat option" where
  "parse_decimal [] = None"
| "parse_decimal (c # s) =
    (if c = CHR ''-'' then map_option uminus (unsigned_decimal s)
     else if c = CHR ''+'' then unsigned_decimal s
     else unsigned_decimal (c # s))"

fun to_numeric_elem :: "scalar \<Rightarrow> rat option" where
  "to_numeric_elem Null = None"
| "to_numeric_elem (Num n) = Some (of_int n)"
| "to_numeric_elem (Str s) = parse_decimal s"

definition digit_char :: "nat \<Rightarrow> char" where
  "digit_char d = ''0123456789'' ! d"

fun string_of_nat :: "nat \<Rightarrow> string" where
  "string_of_nat n =
    (if n < 10 then [digit_char n] else string_of_nat (n div 10) @ [digit_char (n mod 10)])"

declare string_of_nat.simps [simp del]

fun astype_str_elem :: "scalar \<Rightarrow> string" where
  "astype_str_elem Null = ''nan''"
| "astype_str_elem (Str s) = s"
| "astype_str_elem (Num n) =
    (if n < 0 then CHR ''-'' # string_of_nat (nat (- n)) else string_of_nat (nat n))"

fun astype_int_elem :: "scalar \<Rightarrow> int option" where
  "astype_int_elem Null = None"
| "astype_int_elem (Num n) = Some n"
| "astype_int_elem (Str s) = map_option int (digits_value s)"

definition stable_argsort :: "timestamp list \<Rightarrow> nat list" where
  "stable_argsort xs = map snd (sort_key fst (zip xs [0..<length xs]))"

definition tie_reversing_argsort :: "timestamp list \<Rightarrow> nat list" where
  "tie_reversing_argsort xs = map snd (sort_key fst (rev (zip xs [0..<length xs])))"

definition ref_pandas :: "timestamp \<Rightarrow> pandas" where
  "ref_pandas now =
    \<lparr>astype_str = map astype_str_elem,
     to_datetime = map to_datetime_elem,
     to_numeric = map to_numeric_elem,
     argsort = stable_argsort,
     utcnow = now,
     astype_int = astype_int_elem\<rparr>"

definition ref_pandas_unstable :: "timestamp \<Rightarrow> pandas" where
  "ref_pandas_unstable now = (ref_pandas now)\<lparr>argsort := tie_reversing_argsort\<rparr>"

section \<open>Scenario tables\<close>

text \<open>
  Two raw records of one business key, observed on 2021-02-01 and 2021-03-01; and two
  raw records of one business key observed at the same time.
\<close>

definition raw_recency :: raw_table where
  "raw_recency =
    [(1, [(''price_date'', Str ''2021-01-01''), (''commodity_id'', Str ''CID1''),
          (''price_type'', Str ''wholesale''), (''source_name'', Str ''FAOSTAT''),
          (''price_value'', Str ''10''), (''ingested_at'', Str ''2021-02-01'')]),
     (2, [(''price_date'', Str ''2021-01-01''), (''commodity_id'', Str ''CID1''),
          (''price_type'', Str ''wholesale''), (''source_name'', Str ''FAOSTAT''),
          (''price_value'', Str ''11''), (''ingested_at'', Str ''2021-03-01'')])]"


text \<open>
  The canonical record these tables give: dated 2021-01-01, of key
  (2021-01-01, CID1, wholesale, FAOSTAT), with its observation time, price and origin.
\<close>

definition wholesale_row :: "timestamp \<Rightarrow> rat \<Rightarrow> int \<Rightarrow> canon_row" where
  "wholesale_row observed price origin =
    \<lparr>price_date = Some 1609459200000000000, commodity_id = Str ''CID1'',
     commodity_name = Null, price_type = Str ''wholesale'', price_currency = Str ''USD'',
     price_value = Some price, source_name = Str ''FAOSTAT'', ingested_at = Some observed,
     raw_id = Num origin\<rparr>"

text \<open>
  A record in the historical shape, with \<open>Value\<close> and \<open>Item Code (CPC)\<close>; a table with
  an unparseable year and a non-numeric price; and a table whose first price alias is
  null in one row where the second alias is not.
\<close>

definition raw_faostat :: raw_table where
  "raw_faostat = [(1, [(''Value'', Str ''12.50''), (''Item Code (CPC)'', Str ''0711'')])]"




section \<open>The reference instances meet the contract\<close>

lemma argsort_zip_aux:
  assumes "set ps \<subseteq> set (zip xs [0..<length xs])"
  shows "map ((!) xs) (map snd ps) = map fst ps"
proof -
  have "\<And>p. p \<in> set ps \<Longrightarrow> xs ! snd p = fst p"
  proof -
    fix p assume "p \<in> set ps"
    then have "p \<in> set (zip xs [0..<length xs])" using assms by auto
    then obtain i where "i < length xs" "p = (xs ! i, i)"
      by (auto simp: set_zip)
    then show "xs ! snd p = fst p" by simp
  qed
  then show ?thesis by (simp add: comp_def)
qed

lemma stable_argsort_perm: "mset (stable_argsort xs) = mset [0..<length xs]"
proof -
  have "mset (map snd (sort_key fst (zip xs [0..<length xs]))) = mset (map snd (zip xs [0..<length xs]))"
    by (metis mset_map mset_sort)
  moreover have "map snd (zip xs [0..<length xs]) = [0..<length xs]"
    by (rule map_snd_zip) simp
  ultimately show ?thesis unfolding stable_argsort_def by metis
qed

lemma stable_argsort_sorted: "sorted (map ((!) xs) (stable_argsort xs))"
proof -
  have "map ((!) xs) (map snd (sort_key fst (zip xs [0..<length xs]))) = map fst (sort_key fst (zip xs [0..<length xs]))"
    by (rule argsort_zip_aux) simp
  then show ?thesis by (simp add: stable_argsort_def del: map_map)
qed



lemma parse_null_strings: "s \<in> set null_strings \<Longrightarrow> parse_iso8601 s = None"
proof -
  have "parse_iso8601 ''nan'' = None"
    by (simp add: parse_iso8601_def)
  moreover have "parse_iso8601 ''None'' = None"
    by (simp add: parse_iso8601_def digits_value_def digit_of_def)
  moreover assume "s \<in> set null_strings"
  ultimately show ?thesis by (auto simp: null_strings_def)
qed

lemma lib_ok_ref_pandas: "lib_ok (ref_pandas now)"
  unfolding lib_ok_def ref_pandas_def
  by (simp add: stable_argsort_perm stable_argsort_sorted parse_null_strings)
     (simp add: null_strings_def)


section \<open>Sorting by recency\<close>

lemma lib_ok_argsort_perm: "lib_ok L \<Longrightarrow> mset (argsort L xs) = mset [0..<length xs]"
  by (simp add: lib_ok_def)


lemma mset_map_nth_perm:
  assumes "mset p = mset [0..<length xs]"
  shows "mset (map ((!) xs) p) = mset xs"
proof -
  have "mset (map ((!) xs) p) = image_mset ((!) xs) (mset p)" by simp
  also have "\<dots> = image_mset ((!) xs) (mset [0..<length xs])" using assms by simp
  also have "\<dots> = mset (map ((!) xs) [0..<length xs])" by simp
  also have "\<dots> = mset xs" by (simp add: map_nth)
  finally show ?thesis .
qed

lemma nargsort_desc_perm:
  assumes "lib_ok L"
  shows "mset (nargsort_desc L items) = mset [0..<length items]"
proof -
  define idx where "idx = [0..<length items]"
  define nn where "nn = rev (filter (\<lambda>i. items ! i \<noteq> None) idx)"
  define vals where "vals = rev (map (\<lambda>i. the (items ! i)) (filter (\<lambda>i. items ! i \<noteq> None) idx))"
  have len: "length vals = length nn" by (simp add: vals_def nn_def)
  have "mset (argsort L vals) = mset [0..<length nn]"
    using lib_ok_argsort_perm [OF assms, of vals] len by simp
  then have "mset (map ((!) nn) (argsort L vals)) = mset nn"
    by (rule mset_map_nth_perm)
  then have "mset (rev (map ((!) nn) (argsort L vals)) @ filter (\<lambda>i. items ! i = None) idx)
      = mset (filter (\<lambda>i. items ! i \<noteq> None) idx) + mset (filter (\<lambda>i. items ! i = None) idx)"
    by (simp add: nn_def)
  also have "\<dots> = mset idx"
    by (induction idx) auto
  finally show ?thesis
    by (simp add: nargsort_desc_def Let_def idx_def nn_def vals_def)
qed

lemma sort_values_desc_perm:
  assumes "lib_ok L"
  shows "mset (sort_values_desc L rs) = mset rs"
  unfolding sort_values_desc_def
  by (rule mset_map_nth_perm) (use nargsort_desc_perm [OF assms, of "map ingested_at rs"] in simp)



lemma not_older_None [simp]: "not_older a None"
  by (simp add: not_older_def)

lemma not_older_Some [simp]: "not_older (Some s) (Some t) = (t \<le> s)"
  by (simp add: not_older_def)

lemma not_older_refl [simp]: "not_older a a"
  by (cases a) simp_all



section \<open>Dropping duplicates\<close>

lemma drop_duplicates_seen_subset:
  "r \<in> set (drop_duplicates_seen seen rs) \<Longrightarrow> r \<in> set rs \<and> business_key r \<notin> set seen"
proof (induction rs arbitrary: seen)
  case Nil
  then show ?case by simp
next
  case (Cons y ys)
  show ?case
  proof (cases "business_key y \<in> set seen")
    case True
    with Cons show ?thesis by simp
  next
    case False
    with Cons.prems have "r = y \<or> r \<in> set (drop_duplicates_seen (business_key y # seen) ys)"
      by simp
    then show ?thesis
    proof
      assume "r = y"
      with False show ?thesis by simp
    next
      assume "r \<in> set (drop_duplicates_seen (business_key y # seen) ys)"
      from Cons.IH [OF this] show ?thesis by simp
    qed
  qed
qed

lemma drop_duplicates_seen_distinct:
  "distinct (map business_key (drop_duplicates_seen seen rs))"
proof (induction rs arbitrary: seen)
  case Nil
  then show ?case by simp
next
  case (Cons r rs)
  have "business_key r \<notin> business_key ` set (drop_duplicates_seen (business_key r # seen) rs)"
    using drop_duplicates_seen_subset by fastforce
  with Cons show ?case by simp
qed



lemma drop_duplicates_seen_id:
  "distinct (map business_key rs) \<Longrightarrow> business_key ` set rs \<inter> set seen = {}
    \<Longrightarrow> drop_duplicates_seen seen rs = rs"
  by (induction rs arbitrary: seen) auto


section \<open>Deduplication: one record per key, the most recent\<close>


lemma deduplicate_distinct: "distinct (map business_key (deduplicate L rs))"
  by (simp add: deduplicate_def drop_duplicates_def drop_duplicates_seen_distinct)



lemma raw_id_column: "raw \<noteq> [] \<Longrightarrow> ''raw_id'' \<in> set (columns (load_raw_dataframe raw))"
  by (simp add: load_raw_dataframe_def Let_def)

lemma rows_loaded:
  "rows (load_raw_dataframe raw) = map (\<lambda>(i, p). (''raw_id'', Num i) # rev p) raw"
  by (simp add: load_raw_dataframe_def Let_def)

lemma transformed_nonempty:
  assumes "raw \<noteq> []"
  shows "transformed L raw =
     Inr (Canonical (deduplicate L (dropna_required (reconcile_coerce L (load_raw_dataframe raw)))))"
proof -
  have c: "''raw_id'' \<in> set (columns (load_raw_dataframe raw))"
    by (rule raw_id_column [OF assms])
  then have "columns (load_raw_dataframe raw) \<noteq> []" by auto
  moreover have "rows (load_raw_dataframe raw) \<noteq> []"
    using assms by (simp add: rows_loaded)
  ultimately show ?thesis
    using c by (simp add: transformed_def transform_def empty_frame_def)
qed


section \<open>Reconciliation and coercion, column by column\<close>

lemma not_all_isna: "(\<not> list_all isna xs) = (\<exists>v \<in> set xs. v \<noteq> Null)"
  by (simp add: list_all_iff isna_def)

lemma coalesce_loop_find:
  "coalesce_loop df candidates = map_option (column df) (first_qualifying_alias df candidates)"
  unfolding first_qualifying_alias_def
  by (induction candidates) (simp_all add: not_all_isna Let_def)


lemma length_column [simp]: "length (column df c) = length (rows df)"
  by (simp add: column_def)









section \<open>What reaches validation\<close>






section \<open>Running the pipeline on the scenario tables\<close>

lemmas eval_defs =
  transformed_def transform_def load_raw_dataframe_def json_normalize_columns_def empty_frame_def
  reconcile_coerce_def date_column_def price_value_column_def ingested_at_column_def
  coalesce_columns_def column_def cell_def isna_def
  date_aliases_def commodity_id_aliases_def commodity_name_aliases_def price_type_aliases_def
  price_currency_aliases_def price_value_aliases_def source_name_aliases_def ingested_at_aliases_def
  str_strip_def is_space_def dropna_required_def deduplicate_def drop_duplicates_def
  sort_values_desc_def nargsort_desc_def business_key_def
  ref_pandas_def ref_pandas_unstable_def stable_argsort_def tie_reversing_argsort_def
  parse_iso8601_def digits_value_def digit_of_def midnight_def days_from_civil_def in_bounds_def
  days_in_month_def is_leap_def unsigned_decimal_def
  Let_def upt_rec

lemma coerced_recency:
  "dropna_required (reconcile_coerce (ref_pandas 0) (load_raw_dataframe raw_recency)) =
     [wholesale_row 1612137600000000000 10 1, wholesale_row 1614556800000000000 11 2]"
  by (simp add: eval_defs raw_recency_def wholesale_row_def)


lemma deduplicate_recency:
  "deduplicate (ref_pandas 0)
     [wholesale_row 1612137600000000000 10 1, wholesale_row 1614556800000000000 11 2] =
     [wholesale_row 1614556800000000000 11 2]"
  by (simp add: eval_defs wholesale_row_def)


lemma transformed_recency:
  "transformed (ref_pandas 0) raw_recency =
     Inr (Canonical [wholesale_row 1614556800000000000 11 2])"
proof -
  have "raw_recency \<noteq> []" by (simp add: raw_recency_def)
  then show ?thesis
    by (simp add: transformed_nonempty coerced_recency deduplicate_recency)
qed










lemma frame_faostat:
  "load_raw_dataframe raw_faostat =
     \<lparr>columns = [''Value'', ''Item Code (CPC)'', ''raw_id''],
      rows = [[(''raw_id'', Num 1), (''Item Code (CPC)'', Str ''0711''),
               (''Value'', Str ''12.50'')]]\<rparr>"
  by (simp add: load_raw_dataframe_def json_normalize_columns_def raw_faostat_def)

lemma reconciled_faostat:
  "reconcile_coerce (ref_pandas now) (load_raw_dataframe raw_faostat) =
     [\<lparr>price_date = None, commodity_id = Str ''0711'', commodity_name = Null,
       price_type = Null, price_currency = Str ''USD'', price_value = Some (25 / 2),
       source_name = Str ''FAOSTAT'', ingested_at = Some now, raw_id = Num 1\<rparr>]"
  unfolding frame_faostat by (simp add: eval_defs)


section \<open>The claims\<close>




text \<open>
  C2. Whatever the library does, the canonical frame returned by \<open>transform\<close> never
  holds two rows with the same business key.
\<close>

theorem transform_business_keys_unique:
  "transform L df = Inr (Canonical rs) \<Longrightarrow> distinct (map business_key rs)"
  by (auto simp: transform_def deduplicate_distinct split: if_splits)

theorem transform_business_keys_unique_witness:
  "transform (ref_pandas 0) (load_raw_dataframe raw_recency) =
     Inr (Canonical [wholesale_row 1614556800000000000 11 2]) \<and>
   distinct (map business_key [wholesale_row 1614556800000000000 11 2])"
proof -
  have t: "transform (ref_pandas 0) (load_raw_dataframe raw_recency) =
      Inr (Canonical [wholesale_row 1614556800000000000 11 2])"
    using transformed_recency by (simp add: transformed_def)
  from transform_business_keys_unique [OF t] t show ?thesis by simp
qed

text \<open>
  C3. For every raw record set and every alias list, \<open>_coalesce_columns\<close> returns the
  column of the first alias that is a column of the set and holds at least one non-null
  value, in whatever row; when no alias qualifies it returns the default, and with no
  default a column of nulls. In particular a record with \<open>Value\<close> = "12.50" and
  \<open>Item Code (CPC)\<close> = "0711", and neither \<open>price_value\<close> nor \<open>commodity_id\<close>,
  reconciles to the price 12.50 and the commodity id "0711".
\<close>

theorem coalesce_columns_first_nonempty_alias:
  "coalesce_columns df candidates dflt =
     (case first_qualifying_alias df candidates of
        Some a \<Rightarrow> Series (column df a)
      | None \<Rightarrow>
         (case dflt of
            Some d \<Rightarrow> Default d
          | None \<Rightarrow> Series (replicate (length (rows df)) Null))) \<and>
   map price_value (reconcile_coerce (ref_pandas now) (load_raw_dataframe raw_faostat)) =
     [Some (25 / 2)] \<and>
   map commodity_id (reconcile_coerce (ref_pandas now) (load_raw_dataframe raw_faostat)) =
     [Str ''0711'']"
  by (simp add: coalesce_columns_def coalesce_loop_find reconciled_faostat
      split: option.splits)

theorem coalesce_columns_first_nonempty_alias_witness:
  "first_qualifying_alias (load_raw_dataframe raw_faostat) price_value_aliases = Some ''Value'' \<and>
   coalesce_columns (load_raw_dataframe raw_faostat) price_value_aliases (None :: scalar option) =
     Series [Str ''12.50''] \<and>
   first_qualifying_alias (load_raw_dataframe raw_faostat) source_name_aliases = None \<and>
   coalesce_columns (load_raw_dataframe raw_faostat) source_name_aliases (Some (Str ''FAOSTAT'')) =
     Default (Str ''FAOSTAT'') \<and>
   coalesce_columns (load_raw_dataframe raw_faostat) price_type_aliases (None :: scalar option) =
     Series [Null] \<and>
   map price_value (reconcile_coerce (ref_pandas 0) (load_raw_dataframe raw_faostat)) =
     [Some (25 / 2)]"
proof -
  let ?df = "load_raw_dataframe raw_faostat"
  have a: "first_qualifying_alias ?df price_value_aliases = Some ''Value''"
    unfolding frame_faostat
    by (simp add: first_qualifying_alias_def price_value_aliases_def column_def cell_def)
  have b: "first_qualifying_alias ?df source_name_aliases = None"
    unfolding frame_faostat
    by (simp add: first_qualifying_alias_def source_name_aliases_def column_def cell_def)
  have c: "first_qualifying_alias ?df price_type_aliases = None"
    unfolding frame_faostat
    by (simp add: first_qualifying_alias_def price_type_aliases_def column_def cell_def)
  have v: "column ?df ''Value'' = [Str ''12.50'']" "length (rows ?df) = 1"
    unfolding frame_faostat by (simp_all add: column_def cell_def)
  from coalesce_columns_first_nonempty_alias [of ?df price_value_aliases "None :: scalar option" 0]
    coalesce_columns_first_nonempty_alias [of ?df source_name_aliases "Some (Str ''FAOSTAT'')" 0]
    coalesce_columns_first_nonempty_alias [of ?df price_type_aliases "None :: scalar option" 0]
  show ?thesis
    by (simp add: a b c v)
qed



text \<open>
  C5. In \<open>run\<close> the frame that is validated (and then loaded) is the result of
  \<open>transform\<close>, which is already deduplicated: the order is Reconciler, Coercer with the
  drop of rows missing a required field, Deduplicator, and only then the Validator. The
  claim has the Validator before the Deduplicator; the counterexample shows that the
  frame validated is not the record set that enters deduplication.
\<close>

theorem run_validates_deduplicated_set:
  assumes "raw \<noteq> []"
  shows "transformed L raw =
           Inr (Canonical (deduplicate L (dropna_required
             (reconcile_coerce L (load_raw_dataframe raw))))) \<and>
         run L raw =
           (case validate L (Canonical (deduplicate L (dropna_required
                   (reconcile_coerce L (load_raw_dataframe raw))))) of
              [] \<Rightarrow> load (Canonical (deduplicate L (dropna_required
                   (reconcile_coerce L (load_raw_dataframe raw)))))
            | f # fs \<Rightarrow> Inl (SchemaErrors (f # fs)))"
  by (simp add: run_def transformed_nonempty [OF assms])

theorem run_validates_deduplicated_set_witness:
  "raw_recency \<noteq> [] \<and>
   transformed (ref_pandas 0) raw_recency =
     Inr (Canonical [wholesale_row 1614556800000000000 11 2]) \<and>
   run (ref_pandas 0) raw_recency = Inr (1, Some [wholesale_row 1614556800000000000 11 2])"
proof -
  have ne: "raw_recency \<noteq> []" by (simp add: raw_recency_def)
  have "validate (ref_pandas 0) (Canonical [wholesale_row 1614556800000000000 11 2]) = []"
    by (simp add: row_failures_def wholesale_row_def ref_pandas_def)
  with run_validates_deduplicated_set [OF ne, of "ref_pandas 0"] ne show ?thesis
    by (simp add: coerced_recency deduplicate_recency)
       (simp add: wholesale_row_def to_date_def)
qed

text \<open>
  Two records enter deduplication; the frame handed to the Validator holds one.
\<close>

theorem validation_before_deduplication_counterexample:
  "dropna_required (reconcile_coerce (ref_pandas 0) (load_raw_dataframe raw_recency)) =
     [wholesale_row 1612137600000000000 10 1, wholesale_row 1614556800000000000 11 2] \<and>
   transformed (ref_pandas 0) raw_recency \<noteq>
     Inr (Canonical (dropna_required
       (reconcile_coerce (ref_pandas 0) (load_raw_dataframe raw_recency))))"
  by (simp add: transformed_recency coerced_recency)

text \<open>
  C6. On the empty raw table \<open>transform\<close> returns the frame without columns that it
  was given, and \<open>run\<close> then fails in schema validation: every column of the schema is
  required and none is in the frame. The claim has no validation error there.
\<close>

theorem run_empty_table_raises:
  "transformed L [] = Inr (Unchanged \<lparr>columns = [], rows = []\<rparr>) \<and>
   run L [] = Inl (SchemaErrors (map ColumnNotInDataframe schema_columns))"
  by (simp add: run_def transformed_def transform_def load_raw_dataframe_def empty_frame_def
      schema_columns_def)

theorem run_empty_table_raises_witness:
  "run (ref_pandas 0) [] =
     Inl (SchemaErrors
       [ColumnNotInDataframe ''price_date'', ColumnNotInDataframe ''commodity_id'',
        ColumnNotInDataframe ''commodity_name'', ColumnNotInDataframe ''price_type'',
        ColumnNotInDataframe ''price_currency'', ColumnNotInDataframe ''price_value'',
        ColumnNotInDataframe ''source_name'', ColumnNotInDataframe ''ingested_at'',
        ColumnNotInDataframe ''raw_id''])"
  using run_empty_table_raises [of "ref_pandas 0"] by (simp add: schema_columns_def)

text \<open>
  C7. Deduplication is idempotent: deduplicating the output of the Deduplicator gives
  the same records again (as a multiset, hence as a set).
\<close>

theorem deduplicate_idempotent:
  assumes "lib_ok L"
  shows "mset (deduplicate L (deduplicate L rs)) = mset (deduplicate L rs) \<and>
         set (deduplicate L (deduplicate L rs)) = set (deduplicate L rs)"
proof -
  define ys where "ys = deduplicate L rs"
  have perm: "mset (sort_values_desc L ys) = mset ys"
    by (rule sort_values_desc_perm [OF assms])
  then have "mset (map business_key (sort_values_desc L ys)) = mset (map business_key ys)"
    by simp
  moreover have "distinct (map business_key ys)"
    by (simp add: ys_def deduplicate_distinct)
  ultimately have "distinct (map business_key (sort_values_desc L ys))"
    by (metis mset_eq_imp_distinct_iff)
  then have "deduplicate L ys = sort_values_desc L ys"
    by (simp add: deduplicate_def drop_duplicates_def drop_duplicates_seen_id)
  with perm have "mset (deduplicate L ys) = mset ys" by simp
  then show ?thesis
    unfolding ys_def by (metis set_mset_mset)
qed

theorem deduplicate_idempotent_witness:
  "lib_ok (ref_pandas 0) \<and>
   deduplicate (ref_pandas 0)
     [wholesale_row 1612137600000000000 10 1, wholesale_row 1614556800000000000 11 2] =
     [wholesale_row 1614556800000000000 11 2] \<and>
   mset (deduplicate (ref_pandas 0) [wholesale_row 1614556800000000000 11 2]) =
     mset [wholesale_row 1614556800000000000 11 2]"
  using deduplicate_idempotent [OF lib_ok_ref_pandas, of 0
      "[wholesale_row 1612137600000000000 10 1, wholesale_row 1614556800000000000 11 2]"]
    lib_ok_ref_pandas [of 0]
  by (simp add: deduplicate_recency)







end
